theory Spec2Isabelle
  imports Complex_Main "HOL-Library.Char_ord" "HOL-Library.List_Lexorder" "HOL-Library.Sublist"
begin

section \<open>Schools of Mexico: the filter, search, pagination and export pipeline\<close>

text \<open>
  The program is one Streamlit script, \<^verbatim>\<open>main_escuelas_mx.py\<close>, rerun from the top
  on every interaction. The model follows the script section by section: the data frame is
  a list of rows in dataset order, what a widget returns is an input of the run, a Python
  exception is a value \<open>Inl e\<close>, and the cache of \<^verbatim>\<open>st.cache_data\<close> is a map that the
  run takes and returns.
\<close>

subsection \<open>Data\<close>

text \<open>
  A row of the data frame. The five text columns keep the names they have in the file;
  \<open>None\<close> is a missing value. \<open>lat\<close> and \<open>lon\<close> are \<^verbatim>\<open>geometry.y\<close> and
  \<^verbatim>\<open>geometry.x\<close>. Text is a list of code points below 256, which covers the Spanish
  alphabet.
\<close>

record school =
  name :: "string option"
  nombre_entidad :: "string option"
  nombre_municipio :: "string option"
  nombre_localidad :: "string option"
  nombre_de_centro_de_trabajo :: "string option"
  lat :: rat
  lon :: rat

type_synonym gdf = "school list"

datatype error = TypeError | ReError

datatype lang = En | Es

subsection \<open>Python and widget primitives\<close>

text \<open>
  The truth value Python gives a string or \<^verbatim>\<open>None\<close> in \<^verbatim>\<open>if admin1:\<close>.
\<close>

definition truthy :: "string option \<Rightarrow> bool" where
  "truthy v = (case v of None \<Rightarrow> False | Some s \<Rightarrow> s \<noteq> [])"

text \<open>
  \<^verbatim>\<open>str(v)\<close> of a value taken from a row in \<^verbatim>\<open>create_map\<close>: the text itself, and
  the text \<^verbatim>\<open>None\<close> for a missing value held as Python's \<^verbatim>\<open>None\<close>. (Held as a
  NaN it would read \<^verbatim>\<open>nan\<close>; no statement below depends on the text a marker shows
  for a missing value.)
\<close>

definition py_str :: "string option \<Rightarrow> string" where
  "py_str v = (case v of None \<Rightarrow> ''None'' | Some s \<Rightarrow> s)"

text \<open>
  \<^verbatim>\<open>"" + sorted(...)\<close> on line 233: the left operand is a \<^verbatim>\<open>str\<close>, the right one a
  \<^verbatim>\<open>list\<close>. Python has no such addition and raises \<^verbatim>\<open>TypeError\<close>, whatever the
  two values are.
\<close>

definition str_plus_list :: "string \<Rightarrow> string list \<Rightarrow> error + string list" where
  "str_plus_list s xs = Inl TypeError"

text \<open>
  \<^verbatim>\<open>st.selectbox(label, options, index=i)\<close>. With no option the widget returns
  \<^verbatim>\<open>None\<close>; otherwise it returns the option the user chose, and the option at
  \<open>index\<close> while the user has chosen none of them. Every call of the script passes an
  index that lies inside its options.
\<close>

definition selectbox :: "'a list \<Rightarrow> nat \<Rightarrow> nat \<Rightarrow> 'a option" where
  "selectbox options index choice =
     (if options = [] then None
      else if choice < length options then Some (options ! choice)
      else Some (options ! index))"

text \<open>
  \<^verbatim>\<open>series.dropna()\<close> and \<^verbatim>\<open>series.unique()\<close>; the latter keeps the first
  occurrence of each value, in order of appearance.
\<close>

definition dropna :: "'a option list \<Rightarrow> 'a list" where
  "dropna col = List.map_filter (\<lambda>v. v) col"

definition unique :: "'a list \<Rightarrow> 'a list" where
  "unique xs = rev (remdups (rev xs))"

subsection \<open>Sidebar filters (section 3 of the script)\<close>

text \<open>
  Line 229. \<^verbatim>\<open>sorted\<close> compares strings code point by code point, a proper prefix
  first, which is the lexicographic order on \<open>char list\<close>.
\<close>

definition departamentos :: "gdf \<Rightarrow> string list" where
  "departamentos gdf = sort (unique (dropna (map nombre_entidad gdf)))"

text \<open>
  Line 233.
\<close>

definition municipios :: "gdf \<Rightarrow> string \<Rightarrow> error + string list" where
  "municipios gdf admin1 =
     str_plus_list []
       (sort (unique (dropna (map nombre_municipio
          (filter (\<lambda>r. nombre_entidad r = Some admin1) gdf)))))"

text \<open>
  What the sidebar shows for the municipality: the selector over \<open>municipios\<close>, or the
  disabled selector whose only entry is the text \<^verbatim>\<open>select_first\<close>.
\<close>

datatype municipio_widget = Municipio_options "string list" | Select_first_disabled

text \<open>
  Lines 229 to 244: \<open>filtered_for_map\<close> before the limit, and the municipality widget.
  \<open>choice1\<close> and \<open>choice2\<close> are the positions the user picked in the two selectors.
\<close>

definition sidebar_filters :: "gdf \<Rightarrow> nat \<Rightarrow> nat \<Rightarrow> error + (gdf \<times> municipio_widget)" where
  "sidebar_filters gdf choice1 choice2 =
     (let admin1 = selectbox (departamentos gdf) 0 choice1
      in if truthy admin1 then
           (case municipios gdf (the admin1) of
              Inl e \<Rightarrow> Inl e
            | Inr ms \<Rightarrow>
                (let admin2 = selectbox ms 0 choice2
                 in if truthy admin2 then
                      Inr (filter (\<lambda>r. nombre_municipio r = admin2 \<and> nombre_entidad r = admin1) gdf,
                           Municipio_options ms)
                    else
                      Inr (filter (\<lambda>r. nombre_entidad r = admin1) gdf, Municipio_options ms)))
         else Inr (gdf, Select_first_disabled))"

text \<open>
  Lines 250 to 252: the limit of 10000 points, and whether the warning is shown.
\<close>

definition limit_points :: "gdf \<Rightarrow> gdf \<times> bool" where
  "limit_points filtered_for_map =
     (if length filtered_for_map > 10000 then (take 10000 filtered_for_map, True)
      else (filtered_for_map, False))"

subsection \<open>The map (sections 2 and 4 of the script)\<close>

text \<open>
  Lines 260 to 264. The mean is the exact one; the rounding of the floating-point mean is
  not modelled, and no statement below depends on the value of a mean.
\<close>

definition mean :: "rat list \<Rightarrow> rat" where
  "mean xs = sum_list xs / of_nat (length xs)"

definition center :: "gdf \<Rightarrow> rat \<times> rat" where
  "center filtered_for_map =
     (if filtered_for_map \<noteq> [] then
        (mean (map lat filtered_for_map), mean (map lon filtered_for_map))
      else (23.6345, - 102.5528))"

text \<open>
  \<^verbatim>\<open>html.escape\<close> with its default \<^verbatim>\<open>quote=True\<close>.
\<close>

definition escape_char :: "char \<Rightarrow> string" where
  "escape_char c =
     (if c = CHR ''&'' then ''&amp;''
      else if c = CHR ''<'' then ''&lt;''
      else if c = CHR ''>'' then ''&gt;''
      else if c = CHR 0x22 then ''&quot;''
      else if c = CHR 0x27 then ''&#x27;''
      else [c])"

definition escape :: "string \<Rightarrow> string" where
  "escape s = concat (map escape_char s)"

text \<open>
  The map object, as far as the script decides it: where it is centred, the text of the
  copy button, and one marker for each row, with the escaped code and school name that go
  into its popup and tooltip.
\<close>

record marker =
  location :: "rat \<times> rat"
  code_escaped :: string
  school_name_escaped :: string

record folium_map =
  map_location :: "rat \<times> rat"
  copy_text :: string
  markers :: "marker list"

text \<open>
  The body of \<^verbatim>\<open>create_map\<close>, lines 114 to 205.
\<close>

definition create_map_body :: "gdf \<Rightarrow> rat \<Rightarrow> rat \<Rightarrow> string \<Rightarrow> folium_map" where
  "create_map_body gdf center_lat center_lon click_to_copy_text =
     \<lparr>map_location = (center_lat, center_lon),
      copy_text = click_to_copy_text,
      markers = map (\<lambda>row.
         \<lparr>location = (lat row, lon row),
          code_escaped = escape (py_str (name row)),
          school_name_escaped = escape (py_str (nombre_de_centro_de_trabajo row))\<rparr>) gdf\<rparr>"

text \<open>
  \<^verbatim>\<open>@st.cache_data\<close>: the results of earlier calls are kept under the hash of the
  arguments, and an argument whose name starts with an underscore is left out of the hash.
  A call whose hashed arguments are in the cache returns the stored result and does not run
  the body.
\<close>

definition cache_data ::
  "('u \<Rightarrow> 'k \<Rightarrow> 'v) \<Rightarrow> ('k \<rightharpoonup> 'v) \<Rightarrow> 'u \<Rightarrow> 'k \<Rightarrow> 'v \<times> ('k \<rightharpoonup> 'v)" where
  "cache_data body cache unhashed hashed =
     (case cache hashed of
        Some v \<Rightarrow> (v, cache)
      | None \<Rightarrow> (let v = body unhashed hashed in (v, cache(hashed \<mapsto> v))))"

type_synonym map_cache = "(rat \<times> rat \<times> string) \<rightharpoonup> folium_map"

text \<open>
  \<^verbatim>\<open>create_map(_gdf, center_lat, center_lon, click_to_copy_text)\<close> as the script calls
  it, through the cache: \<^verbatim>\<open>_gdf\<close> is the one argument left out of the hash.
\<close>

definition create_map ::
  "map_cache \<Rightarrow> gdf \<Rightarrow> rat \<Rightarrow> rat \<Rightarrow> string \<Rightarrow> folium_map \<times> map_cache" where
  "create_map cache gdf center_lat center_lon click_to_copy_text =
     cache_data (\<lambda>g (la, lo, txt). create_map_body g la lo txt) cache gdf
       (center_lat, center_lon, click_to_copy_text)"

subsection \<open>The table and its search box (section 5 of the script)\<close>

text \<open>
  The entries of \<^verbatim>\<open>TRANSLATIONS\<close> that reach the results modelled here.
\<close>

definition click_to_copy :: "lang \<Rightarrow> string" where
  "click_to_copy l =
     (case l of En \<Rightarrow> ''Click to copy code''
      | Es \<Rightarrow> ''Clic para copiar c'' @ [CHR 0xF3] @ ''digo'')"

text \<open>
  Lines 281 to 292: the five columns of the table, and the labels they are renamed to.
\<close>

type_synonym row = "string option list"

definition display_columns :: "school \<Rightarrow> row" where
  "display_columns r =
     [name r, nombre_entidad r, nombre_municipio r, nombre_localidad r,
      nombre_de_centro_de_trabajo r]"

definition column_display_names :: "lang \<Rightarrow> string list" where
  "column_display_names l =
     (case l of
        En \<Rightarrow> [''Working center code'', ''State'', ''Municipality'', ''Locality'', ''School Name'']
      | Es \<Rightarrow> [''C'' @ [CHR 0xF3] @ ''digo centro de trabajo'', ''Entidad'', ''Municipio'',
               ''Localidad'', ''Nombre de Escuela''])"

text \<open>
  The letters with a lower case among the code points below 256, and their lower case.
\<close>

definition upper_case :: string where
  "upper_case = ''ABCDEFGHIJKLMNOPQRSTUVWXYZ'' @
     [CHR 0xC0, CHR 0xC1, CHR 0xC2, CHR 0xC3, CHR 0xC4, CHR 0xC5, CHR 0xC6, CHR 0xC7,
      CHR 0xC8, CHR 0xC9, CHR 0xCA, CHR 0xCB, CHR 0xCC, CHR 0xCD, CHR 0xCE, CHR 0xCF,
      CHR 0xD0, CHR 0xD1, CHR 0xD2, CHR 0xD3, CHR 0xD4, CHR 0xD5, CHR 0xD6,
      CHR 0xD8, CHR 0xD9, CHR 0xDA, CHR 0xDB, CHR 0xDC, CHR 0xDD, CHR 0xDE]"

definition lower_case :: string where
  "lower_case = ''abcdefghijklmnopqrstuvwxyz'' @
     [CHR 0xE0, CHR 0xE1, CHR 0xE2, CHR 0xE3, CHR 0xE4, CHR 0xE5, CHR 0xE6, CHR 0xE7,
      CHR 0xE8, CHR 0xE9, CHR 0xEA, CHR 0xEB, CHR 0xEC, CHR 0xED, CHR 0xEE, CHR 0xEF,
      CHR 0xF0, CHR 0xF1, CHR 0xF2, CHR 0xF3, CHR 0xF4, CHR 0xF5, CHR 0xF6,
      CHR 0xF8, CHR 0xF9, CHR 0xFA, CHR 0xFB, CHR 0xFC, CHR 0xFD, CHR 0xFE]"

definition lower :: "char \<Rightarrow> char" where
  "lower c = (case map_of (zip upper_case lower_case) c of Some d \<Rightarrow> d | None \<Rightarrow> c)"

text \<open>
  The characters, the dot apart, that have a meaning of their own in a regular expression.
\<close>

definition regex_special :: "char \<Rightarrow> bool" where
  "regex_special c = (c \<in> set (''^$*+?{}[]|()'' @ [CHR 0x5C]))"

text \<open>
  A pattern without such characters is a row of single characters, each matched against
  one character of the text. Under \<^verbatim>\<open>re.IGNORECASE\<close> the dot stands for any character
  but the line feed, and any other character for itself, letter case apart.
\<close>

definition matches_char :: "char \<Rightarrow> char \<Rightarrow> bool" where
  "matches_char p c = (if p = CHR ''.'' then c \<noteq> CHR 0x0A else lower p = lower c)"

fun matches_here :: "string \<Rightarrow> string \<Rightarrow> bool" where
  "matches_here [] s = True"
| "matches_here (p # ps) [] = False"
| "matches_here (p # ps) (c # cs) = (matches_char p c \<and> matches_here ps cs)"

text \<open>
  \<^verbatim>\<open>regex.search(text)\<close> for such a pattern: it matches at some position of the text.
\<close>

definition re_search :: "string \<Rightarrow> string \<Rightarrow> bool" where
  "re_search pat s = list_ex (matches_here pat) (suffixes s)"

text \<open>
  \<^verbatim>\<open>table_df.astype(str)\<close> on one cell. A text stays as it is. What becomes of a
  missing cell differs between versions of pandas: before pandas 3 it becomes a text
  (\<^verbatim>\<open>None\<close>, or \<^verbatim>\<open>nan\<close> for a NaN), from pandas 3 on it stays missing. The
  parameter \<open>na_text\<close> is that outcome: \<open>Some t\<close> for the text \<open>t\<close>, \<open>None\<close> for a
  cell that stays missing.
\<close>

definition astype_str :: "string option \<Rightarrow> string option \<Rightarrow> string option" where
  "astype_str na_text cell = (case cell of None \<Rightarrow> na_text | Some s \<Rightarrow> Some s)"

text \<open>
  \<^verbatim>\<open>series.str.contains(pat, case=False, na=False)\<close> on one cell. The call leaves
  \<^verbatim>\<open>regex\<close> at its default \<^verbatim>\<open>True\<close>, so \<open>pat\<close> is compiled as a regular
  expression with \<^verbatim>\<open>re.IGNORECASE\<close> and searched for in the cell. For a pattern with
  one of the special characters the result is the regular-expression engine's, which is the
  parameter \<open>re_compile\<close>: \<open>None\<close> when the pattern does not compile, the predicate on
  texts otherwise. On a cell that is still missing the result is the \<^verbatim>\<open>False\<close> of
  \<^verbatim>\<open>na=False\<close>.
\<close>

type_synonym regex_engine = "string \<Rightarrow> (string \<Rightarrow> bool) option"

definition str_contains :: "regex_engine \<Rightarrow> string \<Rightarrow> string option \<Rightarrow> error + bool" where
  "str_contains re_compile pat cell =
     (if \<not> list_ex regex_special pat then
        Inr (case cell of None \<Rightarrow> False | Some s \<Rightarrow> re_search pat s)
      else (case re_compile pat of
              None \<Rightarrow> Inl ReError
            | Some matches \<Rightarrow> Inr (case cell of None \<Rightarrow> False | Some s \<Rightarrow> matches s)))"

text \<open>
  The first exception among the results, or all the values.
\<close>

fun collect :: "(error + 'a) list \<Rightarrow> error + 'a list" where
  "collect [] = Inr []"
| "collect (x # xs) =
     (case x of
        Inl e \<Rightarrow> Inl e
      | Inr v \<Rightarrow> (case collect xs of Inl e \<Rightarrow> Inl e | Inr vs \<Rightarrow> Inr (v # vs)))"

text \<open>
  Line 302 for one row: \<^verbatim>\<open>astype(str)\<close>, the search in each cell, \<^verbatim>\<open>any(axis=1)\<close>.
\<close>

definition row_mask :: "string option \<Rightarrow> regex_engine \<Rightarrow> string \<Rightarrow> row \<Rightarrow> error + bool" where
  "row_mask na_text re_compile search_term r =
     (case collect (map (\<lambda>cell. str_contains re_compile search_term (astype_str na_text cell)) r) of
        Inl e \<Rightarrow> Inl e
      | Inr hits \<Rightarrow> Inr (list_ex (\<lambda>h. h) hits))"

text \<open>
  Lines 301 to 303. A table without rows is returned as it is: pandas does not run the
  search on it.
\<close>

definition search ::
  "string option \<Rightarrow> regex_engine \<Rightarrow> string \<Rightarrow> row list \<Rightarrow> error + row list" where
  "search na_text re_compile search_term table_df =
     (if search_term \<noteq> [] then
        (case collect (map (row_mask na_text re_compile search_term) table_df) of
           Inl e \<Rightarrow> Inl e
         | Inr row_hits \<Rightarrow> Inr (map fst (filter snd (zip table_df row_hits))))
      else Inr table_df)"

text \<open>
  \<^verbatim>\<open>df.to_csv(index=False)\<close> as the lines of the file, each a list of fields: the
  column labels, then one line for each row, a missing value written as the empty field.
  The quoting of a field and the encoding to UTF-8 happen after that and are not modelled.
\<close>

definition to_csv :: "string list \<Rightarrow> row list \<Rightarrow> string list list" where
  "to_csv labels df =
     labels # map (map (\<lambda>cell. case cell of None \<Rightarrow> [] | Some s \<Rightarrow> s)) df"

subsection \<open>Pagination (section 5 of the script)\<close>

text \<open>
  \<^verbatim>\<open>options=[50, 100, 200, 500]\<close> of the rows-per-page selector.
\<close>

definition rows_per_page_options :: "int list" where
  "rows_per_page_options = [50, 100, 200, 500]"

text \<open>
  \<^verbatim>\<open>total_pages = max(1, (len(table_df) - 1) // rows_per_page + 1)\<close>.
  Python's \<^verbatim>\<open>//\<close> rounds towards minus infinity, as \<open>div\<close> on \<open>int\<close> does.
\<close>

definition total_pages :: "'a list \<Rightarrow> int \<Rightarrow> int" where
  "total_pages table_df rows_per_page =
     max 1 ((int (length table_df) - 1) div rows_per_page + 1)"

text \<open>
  \<^verbatim>\<open>df.iloc[start:end]\<close>, with Python's slice rules: a negative bound counts from
  the end, and both bounds are brought into \<open>[0, len]\<close>.
\<close>

definition slice_bound :: "int \<Rightarrow> int \<Rightarrow> nat" where
  "slice_bound n i = nat (max 0 (min n (if i < 0 then i + n else i)))"

definition iloc :: "'a list \<Rightarrow> int \<Rightarrow> int \<Rightarrow> 'a list" where
  "iloc df start end =
     (let n = int (length df); a = slice_bound n start; b = slice_bound n end
      in take (b - a) (drop a df))"

text \<open>
  Lines 323 to 325. \<open>page\<close> is the number that \<^verbatim>\<open>st.number_input\<close> returned on
  line 315. The widget is created with \<^verbatim>\<open>min_value=1\<close>, \<^verbatim>\<open>max_value=total_pages\<close>
  and \<^verbatim>\<open>value=1\<close>; what it returns when the user's number lies outside these bounds
  is the widget's affair, and the script uses the number as it comes, without a check of its
  own.
\<close>

definition paginated_df :: "'a list \<Rightarrow> int \<Rightarrow> int \<Rightarrow> 'a list" where
  "paginated_df table_df rows_per_page page =
     (let start_idx = (page - 1) * rows_per_page;
          end_idx = min (start_idx + rows_per_page) (int (length table_df))
      in iloc table_df start_idx end_idx)"

subsection \<open>One run of the script\<close>

text \<open>
  What the widgets return to the script: the language, the positions picked in the state,
  municipality and rows-per-page selectors, the text of the search box, and the number of
  the page input.
\<close>

record ui =
  lang_choice :: lang
  departamento_choice :: nat
  municipio_choice :: nat
  search_term :: string
  rows_per_page_choice :: nat
  page :: int

text \<open>
  What a run that reaches its last line has shown: the point count of line 247, the
  municipality widget, whether the limit warning appeared, the rows, centre and map object
  of section 4, the table before the search (its length is the total of line 299) and
  after it, the page count and the page of lines 314 to 325, the two downloads, and the
  cache of \<^verbatim>\<open>create_map\<close> as the run leaves it.
\<close>

record view =
  points_on_map :: nat
  municipio_shown :: municipio_widget
  limit_warning :: bool
  map_rows :: gdf
  map_center :: "rat \<times> rat"
  map_shown :: folium_map
  table_before_search :: "row list"
  table_df :: "row list"
  pages_shown :: int
  page_rows :: "row list"
  csv_filtered :: "string list list"
  csv_page :: "string list list"
  cache_after :: map_cache

text \<open>
  Lines 247 to 354: what the script does with \<open>filtered_for_map\<close> once the sidebar
  filters have assigned it, whichever of their three branches did.
\<close>

definition map_and_table ::
  "string option \<Rightarrow> regex_engine \<Rightarrow> map_cache \<Rightarrow> ui \<Rightarrow> gdf \<times> municipio_widget \<Rightarrow> error + view" where
  "map_and_table na_text re_compile cache u filtered_and_widget =
     (let (filtered, widget) = filtered_and_widget;
          (filtered_for_map, warned) = limit_points filtered;
          (center_lat, center_lon) = center filtered_for_map;
          (m, cache') = create_map cache filtered_for_map center_lat center_lon
                           (click_to_copy (lang_choice u));
          table_all = map display_columns filtered_for_map
      in case search na_text re_compile (search_term u) table_all of
           Inl e \<Rightarrow> Inl e
         | Inr table \<Rightarrow>
             (let rows_per_page = the (selectbox rows_per_page_options 1 (rows_per_page_choice u));
                  pages = total_pages table rows_per_page;
                  paginated = paginated_df table rows_per_page (page u)
              in Inr \<lparr>points_on_map = length filtered,
                      municipio_shown = widget,
                      limit_warning = warned,
                      map_rows = filtered_for_map,
                      map_center = (center_lat, center_lon),
                      map_shown = m,
                      table_before_search = table_all,
                      table_df = table,
                      pages_shown = pages,
                      page_rows = paginated,
                      csv_filtered = to_csv (column_display_names (lang_choice u)) table,
                      csv_page = to_csv (column_display_names (lang_choice u)) paginated,
                      cache_after = cache'\<rparr>))"

text \<open>
  The script from line 229 to its end, on the loaded data frame. An exception ends the run.
\<close>

definition run ::
  "string option \<Rightarrow> regex_engine \<Rightarrow> map_cache \<Rightarrow> gdf \<Rightarrow> ui \<Rightarrow> error + view" where
  "run na_text re_compile cache gdf u =
     (case sidebar_filters gdf (departamento_choice u) (municipio_choice u) of
        Inl e \<Rightarrow> Inl e
      | Inr filtered_and_widget \<Rightarrow> map_and_table na_text re_compile cache u filtered_and_widget)"

subsection \<open>Page count\<close>

lemma rows_per_page_positive: "p \<in> set rows_per_page_options \<Longrightarrow> 0 < p"
  by (auto simp: rows_per_page_options_def)

lemma floor_form_is_ceiling:
  fixes n p :: int
  assumes "0 < p"
  shows "(n - 1) div p + 1 = - ((- n) div p)"
proof -
  define q where "q = (n - 1) div p"
  define r where "r = (n - 1) mod p"
  have r: "0 \<le> r" "r < p" using assms by (simp_all add: r_def)
  have "n - 1 = p * q + r" by (simp add: q_def r_def)
  then have "- n = p * (- (q + 1)) + (p - 1 - r)" by (simp add: algebra_simps)
  moreover have "0 \<le> p - 1 - r" "p - 1 - r < p" using r by simp_all
  ultimately have "(- n) div p = - (q + 1)" by (rule int_div_pos_eq)
  then show ?thesis by (simp add: q_def)
qed

text \<open>
  Claim C3. For every table and every allowed number of rows per page, the page count of
  line 314 is the greater of 1 and the number of rows divided by the rows per page, rounded
  up. A table without rows has one page; 250 rows at 100 per page make three pages.
\<close>

theorem total_pages_is_ceiling:
  assumes "p \<in> set rows_per_page_options"
  shows "total_pages R p = max 1 \<lceil>real (length R) / real_of_int p\<rceil>
       \<and> total_pages ([] :: 'a list) p = 1
       \<and> (length R = 250 \<longrightarrow> total_pages R 100 = 3)"
proof -
  have p: "0 < p" using assms by (rule rows_per_page_positive)
  have "\<lceil>real (length R) / real_of_int p\<rceil> = \<lceil>real_of_int (int (length R)) / real_of_int p\<rceil>"
    by simp
  also have "\<dots> = - ((- int (length R)) div p)" by (rule ceiling_divide_eq_div)
  also have "\<dots> = (int (length R) - 1) div p + 1"
    using floor_form_is_ceiling [OF p] by simp
  finally have a: "total_pages R p = max 1 \<lceil>real (length R) / real_of_int p\<rceil>"
    by (simp add: total_pages_def)
  have "(- 1) div p = - 1" using p by (simp add: div_eq_minus1)
  then have b: "total_pages ([] :: 'a list) p = 1" by (simp add: total_pages_def)
  have c: "length R = 250 \<longrightarrow> total_pages R 100 = 3" by (simp add: total_pages_def)
  from a b c show ?thesis by blast
qed

theorem total_pages_is_ceiling_witness:
  "(100::int) \<in> set rows_per_page_options
   \<and> total_pages (replicate 250 (0::nat)) 100 = max 1 \<lceil>real (length (replicate 250 (0::nat))) / real_of_int 100\<rceil>
   \<and> total_pages ([] :: nat list) 100 = 1
   \<and> total_pages (replicate 250 (0::nat)) 100 = 3"
proof -
  have h: "(100::int) \<in> set rows_per_page_options" by (simp add: rows_per_page_options_def)
  show ?thesis using h total_pages_is_ceiling [OF h, of "replicate 250 (0::nat)"] by simp
qed

subsection \<open>The page\<close>

lemma paginated_df_take_drop:
  assumes "0 < p" "1 \<le> k"
  shows "paginated_df R p k = take (nat p) (drop (nat ((k - 1) * p)) R)"
proof -
  define s where "s = (k - 1) * p"
  have s: "0 \<le> s" using assms by (simp add: s_def)
  show ?thesis
  proof (cases "s \<le> int (length R)")
    case True
    then show ?thesis using s assms
      by (auto simp: paginated_df_def iloc_def slice_bound_def Let_def s_def [symmetric] min_def nat_diff_distrib nat_add_distrib)
  next
    case False
    then show ?thesis using s assms
      by (auto simp: paginated_df_def iloc_def slice_bound_def Let_def s_def [symmetric] min_def)
  qed
qed

lemma take_drop_is_index_range:
  "take n (drop a xs) = map ((!) xs) [a ..< min (a + n) (length xs)]"
proof (rule nth_equalityI)
  show "length (take n (drop a xs)) = length (map ((!) xs) [a ..< min (a + n) (length xs)])"
    by (auto simp: min_def)
next
  fix i assume "i < length (take n (drop a xs))"
  then have i: "i < n" "a + i < length xs" by auto
  then have "a + i < min (a + n) (length xs)" by simp
  then show "take n (drop a xs) ! i = map ((!) xs) [a ..< min (a + n) (length xs)] ! i"
    using i by (simp del: upt_Suc)
qed

lemma pages_cover:
  assumes "0 < p"
  shows "int (length R) \<le> total_pages R p * p"
proof -
  have "int (length R) - 1 = p * ((int (length R) - 1) div p) + (int (length R) - 1) mod p"
    by simp
  moreover have "(int (length R) - 1) mod p < p" using assms by simp
  ultimately have "int (length R) \<le> p * ((int (length R) - 1) div p) + p" by linarith
  also have "\<dots> = ((int (length R) - 1) div p + 1) * p" by (simp add: algebra_simps)
  also have "\<dots> \<le> total_pages R p * p"
    using assms by (simp add: total_pages_def mult_right_mono)
  finally show ?thesis .
qed

lemma concat_chunks:
  "concat (map (\<lambda>i. take p (drop (i * p) xs)) [0..<k]) = take (k * p) xs"
proof (induction k)
  case 0
  show ?case by simp
next
  case (Suc k)
  have "take (Suc k * p) xs = take (k * p + p) xs" by (simp add: add.commute)
  also have "\<dots> = take (k * p) xs @ take p (drop (k * p) xs)" by (rule take_add)
  finally show ?case using Suc by simp
qed

lemma upto_as_upt: "[1..int k] = map (\<lambda>i. int i + 1) [0..<k]"
proof (induction k)
  case 0
  show ?case by simp
next
  case (Suc k)
  have "[1..int (Suc k)] = [1..int k] @ [int k + 1]"
    using upto_rec2 [of 1 "int (Suc k)"] by (simp add: add.commute)
  then show ?case using Suc by simp
qed

lemma nth_upt_range: "b \<le> n \<Longrightarrow> map ((!) [0..<n]) [a..<b] = [a..<b]"
  by (rule nth_equalityI) simp_all

lemma page_beyond_last_is_empty:
  assumes "0 < p" "total_pages R p < n"
  shows "paginated_df R p n = []"
proof -
  have t: "1 \<le> total_pages R p" by (simp add: total_pages_def)
  then have n: "1 \<le> n" using assms(2) by simp
  have "total_pages R p * p \<le> (n - 1) * p" using assms by (simp add: mult_right_mono)
  then have "int (length R) \<le> (n - 1) * p" using pages_cover [OF assms(1), of R] by linarith
  then have "length R \<le> nat ((n - 1) * p)" by linarith
  then show ?thesis using paginated_df_take_drop [OF assms(1) n, of R] by simp
qed

text \<open>
  Claim C4, as the script has it. The script does not bring the page number into a range: it
  slices with the number that the page widget returns. For every table, every allowed number
  of rows per page and every returned number \<open>n\<close> from 1 on, the page is the rows at the
  positions from \<open>(n - 1) * p\<close> up to, not including, the smaller of \<open>n * p\<close> and the
  length, in the order of the table; for a number above the page count that is the page
  without rows, and nothing fails.
\<close>

theorem page_is_slice_of_returned_number:
  assumes "p \<in> set rows_per_page_options" "1 \<le> n"
  shows "paginated_df R p n
           = map ((!) R) [nat ((n - 1) * p) ..< nat (min (n * p) (int (length R)))]
       \<and> (total_pages R p < n \<longrightarrow> paginated_df R p n = [])"
proof -
  have p: "0 < p" using assms(1) by (rule rows_per_page_positive)
  have nn: "0 \<le> (n - 1) * p" using assms(2) p by simp
  have "paginated_df R p n = take (nat p) (drop (nat ((n - 1) * p)) R)"
    by (rule paginated_df_take_drop [OF p assms(2)])
  also have "\<dots> = map ((!) R) [nat ((n - 1) * p) ..< min (nat ((n - 1) * p) + nat p) (length R)]"
    by (rule take_drop_is_index_range)
  also have "min (nat ((n - 1) * p) + nat p) (length R) = nat (min (n * p) (int (length R)))"
    using nn p by (simp add: min_def algebra_simps nat_add_distrib [symmetric])
  finally show ?thesis using page_beyond_last_is_empty [OF p, of R n] by simp
qed

text \<open>
  The statement at 250 rows and 100 rows per page, for page 3 and for page 5.
\<close>

theorem page_is_slice_of_returned_number_witness:
  "(100::int) \<in> set rows_per_page_options \<and> (1::int) \<le> 3 \<and> (1::int) \<le> 5
   \<and> paginated_df [0..<250] 100 3 = [200..<250]
   \<and> total_pages [0..<250] 100 < 5 \<and> paginated_df [0..<250] 100 5 = []"
proof -
  have h: "(100::int) \<in> set rows_per_page_options" by (simp add: rows_per_page_options_def)
  have t: "total_pages [0..<250] 100 = 3" by (simp add: total_pages_def)
  have "paginated_df [0..<250] 100 3 = map ((!) [0..<250]) [200..<250]"
    using page_is_slice_of_returned_number [OF h, of 3 "[0..<250]"] by simp
  then have a: "paginated_df [0..<250] 100 3 = [200..<250]"
    by (simp only: nth_upt_range [of 250 250 200] simp_thms)
  have b: "paginated_df [0..<250] 100 5 = []"
    using page_is_slice_of_returned_number [OF h, of 5 "[0..<250]"] by (simp add: t)
  show ?thesis using h a b by (simp add: t)
qed

text \<open>
  Claim C4 as it is written says that a page number asked for outside the range is brought
  to the nearest bound before the slice, so that page 5 of 250 rows at 100 per page is page
  3, the rows 200 to 249. Lines 315 to 325 hold no such step. If the widget hands on the 5,
  the page has no rows; if it falls back to its \<^verbatim>\<open>value=1\<close>, the page is the rows 0 to
  99; in neither case is it the rows 200 to 249.
\<close>

theorem page_number_not_clamped_counterexample:
  "(100::int) \<in> set rows_per_page_options
   \<and> total_pages [0..<250] 100 = 3
   \<and> paginated_df [0..<250] 100 5 = []
   \<and> paginated_df [0..<250] 100 1 = [0..<100]
   \<and> paginated_df [0..<250] 100 5 \<noteq> [200..<250]
   \<and> paginated_df [0..<250] 100 1 \<noteq> [200..<250]"
proof -
  have h: "(100::int) \<in> set rows_per_page_options" by (simp add: rows_per_page_options_def)
  have t: "total_pages [0..<250] 100 = 3" by (simp add: total_pages_def)
  have a: "paginated_df [0..<250] 100 5 = []"
    using paginated_df_take_drop [of 100 5 "[0..<250]"] by simp
  have b: "paginated_df [0..<250] 100 1 = [0..<100]"
    using paginated_df_take_drop [of 100 1 "[0..<250]"] by simp
  have c: "[0..<100] \<noteq> [200..<250]"
  proof
    assume "[0..<100] = [200..<250]"
    then have "length [0..<100] = length [200..<250]" by (rule arg_cong)
    then show False by simp
  qed
  have d: "[] \<noteq> [200..<250]"
  proof
    assume "[] = [200..<250]"
    then have "length ([] :: nat list) = length [200..<250]" by (rule arg_cong)
    then show False by simp
  qed
  show ?thesis using h t a b c d by simp
qed

text \<open>
  Claim C5. For every table and every allowed number of rows per page, the pages 1 to the
  page count, one after the other, are the table again: the same rows in the same order,
  none twice and none left out.
\<close>

theorem pages_reconstruct:
  assumes "p \<in> set rows_per_page_options"
  shows "concat (map (paginated_df R p) [1..total_pages R p]) = R"
proof -
  have p: "0 < p" using assms by (rule rows_per_page_positive)
  define t where "t = nat (total_pages R p)"
  have t: "total_pages R p = int t" by (simp add: t_def total_pages_def)
  have page: "paginated_df R p (int i + 1) = take (nat p) (drop (i * nat p) R)" for i
    using paginated_df_take_drop [OF p, of "int i + 1" R] p by (simp add: nat_mult_distrib)
  have "concat (map (paginated_df R p) [1..total_pages R p])
      = concat (map (\<lambda>i. paginated_df R p (int i + 1)) [0..<t])"
    by (simp add: t upto_as_upt comp_def)
  also have "\<dots> = concat (map (\<lambda>i. take (nat p) (drop (i * nat p) R)) [0..<t])"
    by (simp only: page)
  also have "\<dots> = take (t * nat p) R" by (rule concat_chunks)
  also have "\<dots> = R"
  proof -
    have "int (length R) \<le> int t * p" using pages_cover [OF p, of R] by (simp add: t)
    moreover have "int t * p = int (t * nat p)" using p by simp
    ultimately have "length R \<le> t * nat p" by linarith
    then show ?thesis by simp
  qed
  finally show ?thesis .
qed

theorem pages_reconstruct_witness:
  "(50::int) \<in> set rows_per_page_options
   \<and> concat (map (paginated_df [0..<120] 50) [1..total_pages [0..<120] 50]) = [0..<120]"
proof -
  have h: "(50::int) \<in> set rows_per_page_options" by (simp add: rows_per_page_options_def)
  show ?thesis using h pages_reconstruct [OF h, of "[0..<120]"] by simp
qed

subsection \<open>The selectors and the run after them\<close>

lemma set_dropna: "set (dropna col) = {x. Some x \<in> set col}"
  by (induction col) (auto simp: dropna_def List.map_filter_simps split: option.splits)

lemma set_unique: "set (unique xs) = set xs"
  by (simp add: unique_def)

lemma set_departamentos:
  "set (departamentos gdf) = {s. \<exists>r \<in> set gdf. nombre_entidad r = Some s}"
  by (force simp: departamentos_def set_unique set_dropna)

lemma dropna_replicate_None: "dropna (replicate n None) = []"
  by (induction n) (simp_all add: dropna_def List.map_filter_simps)

lemma selectbox_nonempty:
  assumes "options \<noteq> []"
  shows "\<exists>x \<in> set options. selectbox options 0 choice = Some x"
proof (cases "choice < length options")
  case True
  then have "options ! choice \<in> set options" by simp
  then show ?thesis using assms True by (simp add: selectbox_def)
next
  case False
  have "options ! 0 \<in> set options" using assms by simp
  then show ?thesis using assms False by (simp add: selectbox_def)
qed

lemma sidebar_filters_falsy:
  "\<not> truthy (selectbox (departamentos gdf) 0 choice1) \<Longrightarrow>
     sidebar_filters gdf choice1 choice2 = Inr (gdf, Select_first_disabled)"
  by (simp add: sidebar_filters_def Let_def)

lemma sidebar_filters_truthy:
  "truthy (selectbox (departamentos gdf) 0 choice1) \<Longrightarrow>
     sidebar_filters gdf choice1 choice2 = Inl TypeError"
  by (simp add: sidebar_filters_def Let_def municipios_def str_plus_list_def)

lemma limit_points_take: "fst (limit_points f) = take 10000 f"
  by (simp add: limit_points_def)

lemma search_empty_term: "search na_text re_compile [] table = Inr table"
  by (simp add: search_def)

lemma search_no_rows: "search na_text re_compile t [] = Inr []"
  by (simp add: search_def)

lemma map_and_table_result:
  assumes "search na_text re_compile (search_term u) (map display_columns (take 10000 f)) = Inr table"
  shows "\<exists>v. map_and_table na_text re_compile cache u (f, w) = Inr v
           \<and> points_on_map v = length f
           \<and> municipio_shown v = w
           \<and> map_rows v = take 10000 f
           \<and> map_center v = center (take 10000 f)
           \<and> table_before_search v = map display_columns (take 10000 f)
           \<and> table_df v = table
           \<and> page_rows v = paginated_df table
                 (the (selectbox rows_per_page_options 1 (rows_per_page_choice u))) (page u)
           \<and> csv_filtered v = to_csv (column_display_names (lang_choice u)) table"
  using assms limit_points_take [of f]
  by (auto simp: map_and_table_def Let_def split: prod.splits)

lemma run_after_filters:
  assumes "sidebar_filters gdf (departamento_choice u) (municipio_choice u) = Inr (f, w)"
  shows "run na_text re_compile cache gdf u = map_and_table na_text re_compile cache u (f, w)"
  using assms by (simp add: run_def)

subsection \<open>The cached map\<close>

text \<open>
  Claim C10. The key under which \<^verbatim>\<open>create_map\<close> stores its result leaves the data
  frame out: the map returned is decided by the centre latitude, the centre longitude and
  the text of the copy button alone. A second call with the same three values returns the
  map made by the first call, whatever rows either call was given; the map is not a
  function of the rows.
\<close>

theorem create_map_returns_cached_map:
  "fst (create_map (snd (create_map cache gdf1 center_lat center_lon label)) gdf2 center_lat center_lon label)
     = fst (create_map cache gdf1 center_lat center_lon label)"
  by (simp add: create_map_def cache_data_def Let_def split: option.splits)

text \<open>
  An instance: after a call without rows, a call with one row at the same centre and label
  still returns the map without markers.
\<close>

lemma create_map_stale_example:
  "fst (create_map (snd (create_map Map.empty [] 0 0 ''x''))
          [\<lparr>name = Some ''A'', nombre_entidad = None, nombre_municipio = None,
            nombre_localidad = None, nombre_de_centro_de_trabajo = None, lat = 0, lon = 0\<rparr>] 0 0 ''x'')
     = \<lparr>map_location = (0, 0), copy_text = ''x'', markers = []\<rparr>"
  by (simp add: create_map_def cache_data_def Let_def create_map_body_def)

subsection \<open>A result without rows\<close>

text \<open>
  Claim C8. When the sidebar filters leave no row, the run does not fail, whatever is typed
  in the search box: the map is centred at the fixed point (23.6345, -102.5528) and no mean
  is taken, the table and its page have no rows, and the download of the table is the line
  of column labels alone.
\<close>

theorem empty_result_is_shown:
  assumes "sidebar_filters gdf (departamento_choice u) (municipio_choice u) = Inr ([], w)"
  shows "\<exists>v. run na_text re_compile cache gdf u = Inr v
           \<and> map_rows v = []
           \<and> map_center v = (23.6345, - 102.5528)
           \<and> table_df v = []
           \<and> page_rows v = []
           \<and> csv_filtered v = [column_display_names (lang_choice u)]"
proof -
  have s: "search na_text re_compile (search_term u) (map display_columns (take 10000 [])) = Inr []"
    by (simp add: search_no_rows)
  obtain v where v: "map_and_table na_text re_compile cache u ([], w) = Inr v"
      "map_rows v = take 10000 []"
      "map_center v = center (take 10000 [])" "table_df v = []"
      "page_rows v = paginated_df [] (the (selectbox rows_per_page_options 1 (rows_per_page_choice u))) (page u)"
      "csv_filtered v = to_csv (column_display_names (lang_choice u)) []"
    using map_and_table_result [OF s, of cache w] by blast
  have "page_rows v = []" using v(5) by (simp add: paginated_df_def iloc_def Let_def)
  then show ?thesis using v run_after_filters [OF assms, of na_text re_compile cache]
    by (simp add: center_def to_csv_def)
qed

text \<open>
  The statement of C8 at the data frame without rows, Spanish labels, and a search text
  that is not a regular expression.
\<close>

theorem empty_result_is_shown_witness:
  "sidebar_filters [] 0 0 = Inr ([], Select_first_disabled)
   \<and> (\<exists>v. run None (\<lambda>pat. None) Map.empty []
         \<lparr>lang_choice = Es, departamento_choice = 0, municipio_choice = 0, search_term = ''('',
          rows_per_page_choice = 1, page = 1\<rparr> = Inr v
       \<and> map_rows v = []
       \<and> map_center v = (23.6345, - 102.5528)
       \<and> table_df v = []
       \<and> page_rows v = []
       \<and> csv_filtered v = [[''C'' @ [CHR 0xF3] @ ''digo centro de trabajo'', ''Entidad'', ''Municipio'',
               ''Localidad'', ''Nombre de Escuela'']])"
proof -
  have h: "sidebar_filters [] 0 0 = Inr ([], Select_first_disabled)"
    by (simp add: sidebar_filters_def departamentos_def dropna_def unique_def
          selectbox_def truthy_def)
  show ?thesis
    using h empty_result_is_shown [of "[]" "\<lparr>lang_choice = Es, departamento_choice = 0, municipio_choice = 0, search_term = ''('',
          rows_per_page_choice = 1, page = 1\<rparr>" Select_first_disabled None "\<lambda>pat. None" Map.empty]
    by (simp add: column_display_names_def)
qed

subsection \<open>The limit of 10000 points and the table\<close>

text \<open>
  Claim C1, as the script has it. Line 252 assigns the limited rows to
  \<open>filtered_for_map\<close> itself and line 279 builds the table from that variable, so the
  table and the download are limited together with the map. Whatever rows the state and
  municipality filter has left in \<open>filtered_for_map\<close>, with an empty search box the
  table and the download hold the display columns of the first 10000 of them, in dataset
  order, which are all of them only when there are at most 10000; and this is what a run
  shows whose filter returned these rows.
\<close>

theorem table_follows_map_limit:
  assumes "search_term u = []"
  shows "\<exists>v. map_and_table na_text re_compile cache u (f, w) = Inr v
           \<and> map_rows v = take 10000 f
           \<and> table_df v = map display_columns (take 10000 f)
           \<and> csv_filtered v = to_csv (column_display_names (lang_choice u))
                                 (map display_columns (take 10000 f))
           \<and> (length f \<le> 10000 \<longrightarrow> table_df v = map display_columns f)
           \<and> (sidebar_filters gdf (departamento_choice u) (municipio_choice u) = Inr (f, w)
                \<longrightarrow> run na_text re_compile cache gdf u = Inr v)"
proof -
  have s: "search na_text re_compile (search_term u) (map display_columns (take 10000 f))
             = Inr (map display_columns (take 10000 f))"
    using assms by (simp add: search_empty_term)
  show ?thesis
    using map_and_table_result [OF s, of cache w] run_after_filters [of gdf u f w na_text re_compile cache]
    by auto
qed

text \<open>
  The statement at 10001 schools of Oaxaca, as a filter by state would leave them: the map
  and the table have 10000 rows, the download 10001 lines. And at a run on one school
  without a state, whose filter returns that school: the table and the download hold it.
\<close>

theorem table_follows_map_limit_witness:
  "search_term \<lparr>lang_choice = En, departamento_choice = 0, municipio_choice = 0, search_term = [],
          rows_per_page_choice = 1, page = 1\<rparr> = []
   \<and> (\<exists>v. map_and_table None (\<lambda>pat. None) Map.empty
         \<lparr>lang_choice = En, departamento_choice = 0, municipio_choice = 0, search_term = [],
          rows_per_page_choice = 1, page = 1\<rparr>
         (replicate 10001 \<lparr>name = Some ''20DPR0001A'', nombre_entidad = Some ''Oaxaca'',
            nombre_municipio = Some ''Oaxaca de Juarez'', nombre_localidad = Some ''Centro'',
            nombre_de_centro_de_trabajo = Some ''Benito Juarez'', lat = 17, lon = - 96\<rparr>,
          Municipio_options [[], ''Oaxaca de Juarez'']) = Inr v
       \<and> length (map_rows v) = 10000
       \<and> table_df v = replicate 10000 [Some ''20DPR0001A'', Some ''Oaxaca'', Some ''Oaxaca de Juarez'',
                                       Some ''Centro'', Some ''Benito Juarez'']
       \<and> length (csv_filtered v) = 10001)
   \<and> sidebar_filters [\<lparr>name = Some ''20DPR0001A'', nombre_entidad = None, nombre_municipio = None,
        nombre_localidad = None, nombre_de_centro_de_trabajo = None, lat = 17, lon = - 96\<rparr>] 0 0
       = Inr ([\<lparr>name = Some ''20DPR0001A'', nombre_entidad = None, nombre_municipio = None,
        nombre_localidad = None, nombre_de_centro_de_trabajo = None, lat = 17, lon = - 96\<rparr>],
              Select_first_disabled)
   \<and> (\<exists>v. run None (\<lambda>pat. None) Map.empty
         [\<lparr>name = Some ''20DPR0001A'', nombre_entidad = None, nombre_municipio = None,
           nombre_localidad = None, nombre_de_centro_de_trabajo = None, lat = 17, lon = - 96\<rparr>]
         \<lparr>lang_choice = En, departamento_choice = 0, municipio_choice = 0, search_term = [],
          rows_per_page_choice = 1, page = 1\<rparr> = Inr v
       \<and> table_df v = [[Some ''20DPR0001A'', None, None, None, None]]
       \<and> csv_filtered v = [[''Working center code'', ''State'', ''Municipality'', ''Locality'', ''School Name''],
                           [''20DPR0001A'', [], [], [], []]])"
proof -
  let ?r = "\<lparr>name = Some ''20DPR0001A'', nombre_entidad = Some ''Oaxaca'',
            nombre_municipio = Some ''Oaxaca de Juarez'', nombre_localidad = Some ''Centro'',
            nombre_de_centro_de_trabajo = Some ''Benito Juarez'', lat = 17, lon = - 96 :: rat\<rparr>"
  let ?b = "\<lparr>name = Some ''20DPR0001A'', nombre_entidad = None, nombre_municipio = None,
        nombre_localidad = None, nombre_de_centro_de_trabajo = None, lat = 17, lon = - 96 :: rat\<rparr>"
  let ?u = "\<lparr>lang_choice = En, departamento_choice = 0, municipio_choice = 0, search_term = [],
          rows_per_page_choice = 1, page = 1\<rparr>"
  have h: "search_term ?u = []" by simp
  obtain v where v: "map_and_table None (\<lambda>pat. None) Map.empty ?u
                       (replicate 10001 ?r, Municipio_options [[], ''Oaxaca de Juarez'']) = Inr v"
      "map_rows v = take 10000 (replicate 10001 ?r)"
      "table_df v = map display_columns (take 10000 (replicate 10001 ?r))"
      "csv_filtered v = to_csv (column_display_names (lang_choice ?u))
                          (map display_columns (take 10000 (replicate 10001 ?r)))"
    using table_follows_map_limit [OF h, of None "\<lambda>pat. None" Map.empty "replicate 10001 ?r"
        "Municipio_options [[], ''Oaxaca de Juarez'']" "[]"]
    by blast
  have "length (map_rows v) = 10000" using v(2) by simp
  moreover have "table_df v = replicate 10000 [Some ''20DPR0001A'', Some ''Oaxaca'',
      Some ''Oaxaca de Juarez'', Some ''Centro'', Some ''Benito Juarez'']"
    using v(3) by (simp add: display_columns_def)
  moreover have "length (csv_filtered v) = 10001" using v(4) by (simp add: to_csv_def)
  ultimately have first: "\<exists>v. map_and_table None (\<lambda>pat. None) Map.empty ?u
         (replicate 10001 ?r, Municipio_options [[], ''Oaxaca de Juarez'']) = Inr v
       \<and> length (map_rows v) = 10000
       \<and> table_df v = replicate 10000 [Some ''20DPR0001A'', Some ''Oaxaca'', Some ''Oaxaca de Juarez'',
                                       Some ''Centro'', Some ''Benito Juarez'']
       \<and> length (csv_filtered v) = 10001"
    using v(1) by blast
  have f: "sidebar_filters [?b] 0 0 = Inr ([?b], Select_first_disabled)"
    by (simp add: sidebar_filters_def departamentos_def dropna_def unique_def
          selectbox_def truthy_def)
  have second: "\<exists>v. run None (\<lambda>pat. None) Map.empty [?b] ?u = Inr v
       \<and> table_df v = [[Some ''20DPR0001A'', None, None, None, None]]
       \<and> csv_filtered v = [[''Working center code'', ''State'', ''Municipality'', ''Locality'', ''School Name''],
                           [''20DPR0001A'', [], [], [], []]]"
    using f table_follows_map_limit [OF h, of None "\<lambda>pat. None" Map.empty "[?b]"
        Select_first_disabled "[?b]"]
    by (auto simp: column_display_names_def display_columns_def to_csv_def)
  show ?thesis using h first f second by blast
qed

lemma departamentos_all_missing:
  "departamentos (replicate n \<lparr>name = None, nombre_entidad = None, nombre_municipio = None,
      nombre_localidad = None, nombre_de_centro_de_trabajo = None, lat = 0, lon = 0\<rparr>) = []"
  by (simp add: departamentos_def dropna_replicate_None unique_def)

text \<open>
  Claim C1 as it is written says that the table and the download hold every row that passes
  the filter, also when the map is cut to 10000. For 10001 schools without a state, all of
  which pass, the table has 10000 rows before and after the search, and the download has
  the label line and 10000 more.
\<close>

theorem table_is_capped_counterexample:
  "sidebar_filters (replicate 10001 \<lparr>name = None, nombre_entidad = None, nombre_municipio = None,
      nombre_localidad = None, nombre_de_centro_de_trabajo = None, lat = 0, lon = 0\<rparr>) 0 0
     = Inr (replicate 10001 \<lparr>name = None, nombre_entidad = None, nombre_municipio = None,
      nombre_localidad = None, nombre_de_centro_de_trabajo = None, lat = 0, lon = 0\<rparr>, Select_first_disabled)
   \<and> map_sum id (\<lambda>v. (length (table_before_search v), length (table_df v), length (csv_filtered v)))
       (run None (\<lambda>pat. None) Map.empty
         (replicate 10001 \<lparr>name = None, nombre_entidad = None, nombre_municipio = None,
            nombre_localidad = None, nombre_de_centro_de_trabajo = None, lat = 0, lon = 0\<rparr>)
         \<lparr>lang_choice = Es, departamento_choice = 0, municipio_choice = 0, search_term = [],
          rows_per_page_choice = 1, page = 1\<rparr>)
     = Inr (10000, 10000, 10001)"
proof -
  let ?r = "\<lparr>name = None, nombre_entidad = None, nombre_municipio = None,
      nombre_localidad = None, nombre_de_centro_de_trabajo = None, lat = 0, lon = 0 :: rat\<rparr>"
  let ?u = "\<lparr>lang_choice = Es, departamento_choice = 0, municipio_choice = 0, search_term = [],
          rows_per_page_choice = 1, page = 1\<rparr>"
  have h: "sidebar_filters (replicate 10001 ?r) (departamento_choice ?u) (municipio_choice ?u)
             = Inr (replicate 10001 ?r, Select_first_disabled)"
    by (rule sidebar_filters_falsy) (simp add: departamentos_all_missing selectbox_def truthy_def)
  have s: "search None (\<lambda>pat. None) (search_term ?u) (map display_columns (take 10000 (replicate 10001 ?r)))
             = Inr (map display_columns (take 10000 (replicate 10001 ?r)))"
    by (simp add: search_empty_term)
  obtain v where v: "map_and_table None (\<lambda>pat. None) Map.empty ?u
                       (replicate 10001 ?r, Select_first_disabled) = Inr v"
      "table_before_search v = map display_columns (take 10000 (replicate 10001 ?r))"
      "table_df v = map display_columns (take 10000 (replicate 10001 ?r))"
      "csv_filtered v = to_csv (column_display_names (lang_choice ?u)) (map display_columns (take 10000 (replicate 10001 ?r)))"
    using map_and_table_result [OF s, of Map.empty Select_first_disabled] by blast
  have r: "run None (\<lambda>pat. None) Map.empty (replicate 10001 ?r) ?u = Inr v"
    using run_after_filters [OF h, of None "\<lambda>pat. None" Map.empty] v(1) by simp
  have "length (table_before_search v) = 10000" "length (table_df v) = 10000"
       "length (csv_filtered v) = 10001"
    using v(2,3,4) by (simp_all add: to_csv_def)
  then show ?thesis using h r by simp
qed

subsection \<open>Line 233\<close>

text \<open>
  Claim C7 says that the municipality options are the sorted distinct municipalities of the
  selected state and that computing them never fails. Line 233 adds the sorted list to the
  string \<^verbatim>\<open>""\<close>, not to the list \<^verbatim>\<open>[""]\<close>: for every data frame and every
  state the computation ends in \<^verbatim>\<open>TypeError\<close>, and no option is offered.
\<close>

theorem municipios_raises: "municipios gdf admin1 = Inl TypeError"
  by (simp add: municipios_def str_plus_list_def)

text \<open>
  Claim C6 says that filtering by a state alone returns the rows of that state. For a data
  frame of one school in Oaxaca, the only state on offer is Oaxaca, and both the filter
  stage and the whole run end in the \<^verbatim>\<open>TypeError\<close> of line 233: line 241, which
  would keep the rows of the state, is never reached.
\<close>

theorem state_filter_raises:
  "departamentos [\<lparr>name = Some ''20DPR0001A'', nombre_entidad = Some ''Oaxaca'',
      nombre_municipio = Some ''Oaxaca de Juarez'', nombre_localidad = Some ''Centro'',
      nombre_de_centro_de_trabajo = Some ''Benito Juarez'', lat = 17, lon = - 96\<rparr>] = [''Oaxaca'']
   \<and> sidebar_filters [\<lparr>name = Some ''20DPR0001A'', nombre_entidad = Some ''Oaxaca'',
      nombre_municipio = Some ''Oaxaca de Juarez'', nombre_localidad = Some ''Centro'',
      nombre_de_centro_de_trabajo = Some ''Benito Juarez'', lat = 17, lon = - 96\<rparr>] 0 0 = Inl TypeError
   \<and> run na_text re_compile cache
        [\<lparr>name = Some ''20DPR0001A'', nombre_entidad = Some ''Oaxaca'',
          nombre_municipio = Some ''Oaxaca de Juarez'', nombre_localidad = Some ''Centro'',
          nombre_de_centro_de_trabajo = Some ''Benito Juarez'', lat = 17, lon = - 96\<rparr>]
        \<lparr>lang_choice = Es, departamento_choice = 0, municipio_choice = 0, search_term = [],
         rows_per_page_choice = 1, page = 1\<rparr> = Inl TypeError"
proof -
  let ?r = "\<lparr>name = Some ''20DPR0001A'', nombre_entidad = Some ''Oaxaca'',
      nombre_municipio = Some ''Oaxaca de Juarez'', nombre_localidad = Some ''Centro'',
      nombre_de_centro_de_trabajo = Some ''Benito Juarez'', lat = 17, lon = - 96 :: rat\<rparr>"
  have d: "departamentos [?r] = [''Oaxaca'']"
    by (simp add: departamentos_def dropna_def unique_def)
  have "truthy (selectbox (departamentos [?r]) 0 0)"
    by (simp add: d selectbox_def truthy_def)
  then have h: "sidebar_filters [?r] 0 0 = Inl TypeError" by (rule sidebar_filters_truthy)
  then show ?thesis using d by (simp add: run_def)
qed

subsection \<open>The state selector and the branch without filter\<close>

text \<open>
  Claim C9 as it is written says that with one state value present the branch without
  filter cannot be reached and every result is of one state. The empty string is a state
  value that is present and not missing, it is the first option in sorted order, and Python
  takes it for false in \<^verbatim>\<open>if admin1:\<close>. With one school whose state is the empty
  string and one school in Oaxaca, the run takes the branch without filter and shows the
  rows of both states.
\<close>

theorem blank_state_counterexample:
  "departamentos
     [\<lparr>name = Some ''A1'', nombre_entidad = Some [], nombre_municipio = Some ''M'',
        nombre_localidad = None, nombre_de_centro_de_trabajo = None, lat = 20, lon = - 100\<rparr>,
      \<lparr>name = Some ''B2'', nombre_entidad = Some ''Oaxaca'', nombre_municipio = Some ''N'',
        nombre_localidad = None, nombre_de_centro_de_trabajo = None, lat = 17, lon = - 96\<rparr>]
     = [[], ''Oaxaca'']
   \<and> selectbox [[], ''Oaxaca''] 0 0 = Some []
   \<and> sidebar_filters
     [\<lparr>name = Some ''A1'', nombre_entidad = Some [], nombre_municipio = Some ''M'',
        nombre_localidad = None, nombre_de_centro_de_trabajo = None, lat = 20, lon = - 100\<rparr>,
      \<lparr>name = Some ''B2'', nombre_entidad = Some ''Oaxaca'', nombre_municipio = Some ''N'',
        nombre_localidad = None, nombre_de_centro_de_trabajo = None, lat = 17, lon = - 96\<rparr>] 0 0
     = Inr ([\<lparr>name = Some ''A1'', nombre_entidad = Some [], nombre_municipio = Some ''M'',
        nombre_localidad = None, nombre_de_centro_de_trabajo = None, lat = 20, lon = - 100\<rparr>,
      \<lparr>name = Some ''B2'', nombre_entidad = Some ''Oaxaca'', nombre_municipio = Some ''N'',
        nombre_localidad = None, nombre_de_centro_de_trabajo = None, lat = 17, lon = - 96\<rparr>],
       Select_first_disabled)
   \<and> map_sum id (\<lambda>v. map nombre_entidad (map_rows v))
       (run None (\<lambda>pat. None) Map.empty
         [\<lparr>name = Some ''A1'', nombre_entidad = Some [], nombre_municipio = Some ''M'',
            nombre_localidad = None, nombre_de_centro_de_trabajo = None, lat = 20, lon = - 100\<rparr>,
          \<lparr>name = Some ''B2'', nombre_entidad = Some ''Oaxaca'', nombre_municipio = Some ''N'',
            nombre_localidad = None, nombre_de_centro_de_trabajo = None, lat = 17, lon = - 96\<rparr>]
         \<lparr>lang_choice = Es, departamento_choice = 0, municipio_choice = 0, search_term = [],
          rows_per_page_choice = 1, page = 1\<rparr>)
     = Inr [Some [], Some ''Oaxaca'']"
proof -
  let ?a = "\<lparr>name = Some ''A1'', nombre_entidad = Some [], nombre_municipio = Some ''M'',
        nombre_localidad = None, nombre_de_centro_de_trabajo = None, lat = 20, lon = - 100 :: rat\<rparr>"
  let ?b = "\<lparr>name = Some ''B2'', nombre_entidad = Some ''Oaxaca'', nombre_municipio = Some ''N'',
        nombre_localidad = None, nombre_de_centro_de_trabajo = None, lat = 17, lon = - 96 :: rat\<rparr>"
  let ?u = "\<lparr>lang_choice = Es, departamento_choice = 0, municipio_choice = 0, search_term = [],
          rows_per_page_choice = 1, page = 1\<rparr>"
  have d: "departamentos [?a, ?b] = [[], ''Oaxaca'']"
    by (simp add: departamentos_def dropna_def unique_def)
  have sb: "selectbox [[], ''Oaxaca''] 0 0 = Some []" by (simp add: selectbox_def)
  have "\<not> truthy (selectbox (departamentos [?a, ?b]) 0 0)" by (simp add: d sb truthy_def)
  then have h: "sidebar_filters [?a, ?b] (departamento_choice ?u) (municipio_choice ?u)
                  = Inr ([?a, ?b], Select_first_disabled)"
    using sidebar_filters_falsy [of "[?a, ?b]" 0 0] by simp
  have s: "search None (\<lambda>pat. None) (search_term ?u) (map display_columns (take 10000 [?a, ?b]))
             = Inr (map display_columns (take 10000 [?a, ?b]))"
    by (simp add: search_empty_term)
  obtain v where v: "map_and_table None (\<lambda>pat. None) Map.empty ?u ([?a, ?b], Select_first_disabled) = Inr v"
      "map_rows v = take 10000 [?a, ?b]"
    using map_and_table_result [OF s, of Map.empty Select_first_disabled] by blast
  have r: "run None (\<lambda>pat. None) Map.empty [?a, ?b] ?u = Inr v"
    using run_after_filters [OF h, of None "\<lambda>pat. None" Map.empty] v(1) by simp
  show ?thesis using d sb h r v(2) by simp
qed

text \<open>
  Claim C9, as the script has it. The state selector offers the state values of the data
  frame and no other choice. For a data frame with at least one state value it returns one
  of them, and the branch without filter, with its disabled municipality selector, is taken
  exactly when that value is the empty string.
\<close>

theorem state_selector_and_unfiltered_branch:
  assumes "departamentos gdf \<noteq> []"
  shows "\<exists>s. selectbox (departamentos gdf) 0 choice1 = Some s
           \<and> (\<exists>r \<in> set gdf. nombre_entidad r = Some s)
           \<and> (sidebar_filters gdf choice1 choice2 = Inr (gdf, Select_first_disabled) \<longleftrightarrow> s = [])"
proof -
  obtain s where s: "s \<in> set (departamentos gdf)" "selectbox (departamentos gdf) 0 choice1 = Some s"
    using selectbox_nonempty [OF assms] by blast
  have r: "\<exists>r \<in> set gdf. nombre_entidad r = Some s" using s(1) by (simp add: set_departamentos)
  have "sidebar_filters gdf choice1 choice2 = Inr (gdf, Select_first_disabled) \<longleftrightarrow> s = []"
  proof (cases "s = []")
    case True
    then have "\<not> truthy (selectbox (departamentos gdf) 0 choice1)" by (simp add: s(2) truthy_def)
    then show ?thesis using True by (simp add: sidebar_filters_falsy)
  next
    case False
    then have "truthy (selectbox (departamentos gdf) 0 choice1)" by (simp add: s(2) truthy_def)
    then show ?thesis using False by (simp add: sidebar_filters_truthy)
  qed
  then show ?thesis using s(2) r by blast
qed

text \<open>
  The statement at a data frame of one school whose state is the empty string.
\<close>

theorem state_selector_and_unfiltered_branch_witness:
  "departamentos [\<lparr>name = Some ''A1'', nombre_entidad = Some [], nombre_municipio = Some ''M'',
        nombre_localidad = None, nombre_de_centro_de_trabajo = None, lat = 20, lon = - 100\<rparr>] \<noteq> []
   \<and> (\<exists>s. selectbox (departamentos [\<lparr>name = Some ''A1'', nombre_entidad = Some [], nombre_municipio = Some ''M'',
        nombre_localidad = None, nombre_de_centro_de_trabajo = None, lat = 20, lon = - 100\<rparr>]) 0 0 = Some s
      \<and> (sidebar_filters [\<lparr>name = Some ''A1'', nombre_entidad = Some [], nombre_municipio = Some ''M'',
        nombre_localidad = None, nombre_de_centro_de_trabajo = None, lat = 20, lon = - 100\<rparr>] 0 0
           = Inr ([\<lparr>name = Some ''A1'', nombre_entidad = Some [], nombre_municipio = Some ''M'',
        nombre_localidad = None, nombre_de_centro_de_trabajo = None, lat = 20, lon = - 100\<rparr>], Select_first_disabled)
         \<longleftrightarrow> s = []))"
proof -
  let ?a = "\<lparr>name = Some ''A1'', nombre_entidad = Some [], nombre_municipio = Some ''M'',
        nombre_localidad = None, nombre_de_centro_de_trabajo = None, lat = 20, lon = - 100 :: rat\<rparr>"
  have d: "departamentos [?a] \<noteq> []"
    by (simp add: departamentos_def dropna_def unique_def)
  show ?thesis using d state_selector_and_unfiltered_branch [OF d, of 0 0] by blast
qed

subsection \<open>The search box\<close>

lemma collect_Inr: "collect (map (\<lambda>x. Inr (f x)) xs) = Inr (map f xs)"
  by (induction xs) simp_all

lemma keep_marked_rows: "map fst (filter snd (zip xs (map P xs))) = filter P xs"
  by (induction xs) simp_all

lemma matches_here_literal:
  "CHR ''.'' \<notin> set pat \<Longrightarrow> matches_here pat s \<longleftrightarrow> prefix (map lower pat) (map lower s)"
  by (induction pat s rule: matches_here.induct) (auto simp: matches_char_def)

lemma suffix_of_map:
  "suffix ys (map f s) \<longleftrightarrow> (\<exists>t. suffix t s \<and> ys = map f t)"
  by (auto simp: suffix_def map_eq_append_conv)

lemma re_search_literal:
  assumes "CHR ''.'' \<notin> set pat"
  shows "re_search pat s \<longleftrightarrow> sublist (map lower pat) (map lower s)"
proof -
  have "re_search pat s \<longleftrightarrow> (\<exists>t. suffix t s \<and> prefix (map lower pat) (map lower t))"
    using assms by (auto simp: re_search_def list_ex_iff in_set_suffixes matches_here_literal)
  also have "\<dots> \<longleftrightarrow> (\<exists>ys. suffix ys (map lower s) \<and> prefix (map lower pat) ys)"
    by (auto simp: suffix_of_map)
  also have "\<dots> \<longleftrightarrow> sublist (map lower pat) (map lower s)"
    by (simp add: sublist_altdef')
  finally show ?thesis .
qed

lemma row_mask_simple:
  assumes "\<not> list_ex regex_special t"
  shows "row_mask na_text re_compile t r
           = Inr (\<exists>cell \<in> set r. \<exists>s. astype_str na_text cell = Some s \<and> re_search t s)"
proof -
  have eq: "map (\<lambda>cell. str_contains re_compile t (astype_str na_text cell)) r
          = map (\<lambda>cell. Inr (\<exists>s. astype_str na_text cell = Some s \<and> re_search t s)) r"
    using assms by (auto simp: str_contains_def split: option.splits)
  show ?thesis unfolding row_mask_def eq collect_Inr by (simp add: list_ex_iff)
qed

lemma search_simple:
  assumes "t \<noteq> []" "\<not> list_ex regex_special t"
  shows "search na_text re_compile t table
           = Inr (filter (\<lambda>r. \<exists>cell \<in> set r. \<exists>s. astype_str na_text cell = Some s \<and> re_search t s)
                    table)"
proof -
  have eq: "map (row_mask na_text re_compile t) table
          = map (\<lambda>r. Inr (\<exists>cell \<in> set r. \<exists>s. astype_str na_text cell = Some s \<and> re_search t s)) table"
    using assms(2) by (simp add: row_mask_simple)
  show ?thesis unfolding search_def eq collect_Inr using assms(1) by (simp add: keep_marked_rows)
qed

text \<open>
  What the search does for a text without special characters and without a dot: it keeps
  the rows in which one of the five cells, if \<^verbatim>\<open>astype(str)\<close> has made it a text,
  holds the search text, letter case apart. Latitude and longitude are not among the cells.
\<close>

lemma search_literal:
  assumes "t \<noteq> []" "\<not> list_ex regex_special t" "CHR ''.'' \<notin> set t"
  shows "search na_text re_compile t table
           = Inr (filter (\<lambda>r. \<exists>cell \<in> set r. \<exists>s. astype_str na_text cell = Some s
                                 \<and> sublist (map lower t) (map lower s)) table)"
  using search_simple [OF assms(1,2)] re_search_literal [OF assms(3)] by simp

text \<open>
  A row whose five cells are all missing: where \<^verbatim>\<open>astype(str)\<close> leaves them missing,
  no such search text keeps it; where it makes them the text \<^verbatim>\<open>None\<close>, the search for
  \<^verbatim>\<open>n\<close> keeps it.
\<close>

lemma missing_row_under_pandas_3:
  assumes "t \<noteq> []" "\<not> list_ex regex_special t"
  shows "search None re_compile t [[None, None, None, None, None]] = Inr []"
  by (simp add: search_simple [OF assms] astype_str_def)

lemma missing_row_before_pandas_3:
  "search (Some ''None'') re_compile ''n'' [[None, None, None, None, None]]
     = Inr [[None, None, None, None, None]]"
proof -
  have lit: "\<not> list_ex regex_special ''n''" by (simp add: regex_special_def)
  have "re_search ''n'' ''None''"
    by (simp add: re_search_def matches_char_def lower_def upper_case_def lower_case_def)
  then show ?thesis by (simp add: search_simple [OF _ lit] astype_str_def)
qed

text \<open>
  Claim C2 says that the search keeps a row exactly when one of its five display columns
  holds the search text, letter case apart. Line 302 does not pass \<^verbatim>\<open>regex=False\<close>,
  so the search text is a regular expression: the search for a dot keeps a school none of
  whose columns holds a dot, whatever \<^verbatim>\<open>astype(str)\<close> makes of its missing state and
  whatever the engine does with other patterns.
\<close>

theorem dot_search_keeps_row_without_dot:
  "filter (\<lambda>cell. CHR ''.'' \<in> set (case cell of None \<Rightarrow> [] | Some s \<Rightarrow> s))
     (display_columns \<lparr>name = Some ''20DPR0001A'', nombre_entidad = None,
        nombre_municipio = Some ''Oaxaca de Juarez'', nombre_localidad = Some ''Centro'',
        nombre_de_centro_de_trabajo = Some ''Benito Juarez'', lat = 17, lon = - 96\<rparr>) = []
   \<and> map_sum id table_df
       (run na_text re_compile cache
         [\<lparr>name = Some ''20DPR0001A'', nombre_entidad = None,
            nombre_municipio = Some ''Oaxaca de Juarez'', nombre_localidad = Some ''Centro'',
            nombre_de_centro_de_trabajo = Some ''Benito Juarez'', lat = 17, lon = - 96\<rparr>]
         \<lparr>lang_choice = Es, departamento_choice = 0, municipio_choice = 0, search_term = ''.'',
          rows_per_page_choice = 1, page = 1\<rparr>)
     = Inr [[Some ''20DPR0001A'', None, Some ''Oaxaca de Juarez'', Some ''Centro'',
             Some ''Benito Juarez'']]"
proof -
  let ?r = "\<lparr>name = Some ''20DPR0001A'', nombre_entidad = None,
        nombre_municipio = Some ''Oaxaca de Juarez'', nombre_localidad = Some ''Centro'',
        nombre_de_centro_de_trabajo = Some ''Benito Juarez'', lat = 17, lon = - 96 :: rat\<rparr>"
  let ?u = "\<lparr>lang_choice = Es, departamento_choice = 0, municipio_choice = 0, search_term = ''.'',
          rows_per_page_choice = 1, page = 1\<rparr>"
  let ?row = "[Some ''20DPR0001A'', None, Some ''Oaxaca de Juarez'', Some ''Centro'',
             Some ''Benito Juarez'']"
  have d: "display_columns ?r = ?row" by (simp add: display_columns_def)
  have nodot: "filter (\<lambda>cell. CHR ''.'' \<in> set (case cell of None \<Rightarrow> [] | Some s \<Rightarrow> s)) ?row = []"
    by simp
  have lit: "\<not> list_ex regex_special ''.''" by (simp add: regex_special_def)
  have hit: "re_search ''.'' ''20DPR0001A''" by (simp add: re_search_def matches_char_def)
  have "\<exists>cell \<in> set ?row. \<exists>s. astype_str na_text cell = Some s \<and> re_search ''.'' s"
    using hit by (simp add: astype_str_def)
  then have s: "search na_text re_compile ''.'' [?row] = Inr [?row]"
    using search_simple [OF _ lit, of na_text re_compile "[?row]"] by simp
  have "\<not> truthy (selectbox (departamentos [?r]) 0 0)"
    by (simp add: departamentos_def dropna_def unique_def selectbox_def truthy_def)
  then have h: "sidebar_filters [?r] (departamento_choice ?u) (municipio_choice ?u)
                  = Inr ([?r], Select_first_disabled)"
    using sidebar_filters_falsy [of "[?r]" 0 0] by simp
  have s': "search na_text re_compile (search_term ?u) (map display_columns (take 10000 [?r]))
              = Inr [?row]"
    using s by (simp add: d)
  obtain v where v: "map_and_table na_text re_compile cache ?u ([?r], Select_first_disabled) = Inr v"
      "table_df v = [?row]"
    using map_and_table_result [OF s', of cache Select_first_disabled] by blast
  have r: "run na_text re_compile cache [?r] ?u = Inr v"
    using run_after_filters [OF h, of na_text re_compile cache] v(1) by simp
  show ?thesis using d nodot r v(2) by simp
qed

end
